theory Spec2Isabelle
  imports Main "HOL-Library.Sublist"
begin

section \<open>Data model\<close>

text \<open>
  Identifiers (\<open>goalId\<close>, the branded \<open>WorkerId\<close>) are strings. An ISO-8601 instant is
  represented by the time value \<open>new Date(iso).getTime()\<close> gives it, in milliseconds, so
  that \<open>now >= expiresAt\<close> on two \<open>Date\<close> objects is \<open>\<ge>\<close> on integers and
  \<open>new Date(now.getTime() + durationMs).toISOString()\<close> is an addition.
\<close>

type_synonym workerId = string
type_synonym timestamp = int

text \<open>\<open>GoalClaim\<close> (application/work/goals/claims/GoalClaim.ts).\<close>

record goalClaim =
  goalId :: string
  claimedBy :: workerId
  claimedAt :: timestamp
  claimExpiresAt :: timestamp

text \<open>\<open>ClaimValidationResult\<close> and \<open>ClaimRejectionReason\<close> (GoalClaimPolicy.ts).\<close>

datatype claimRejectionReason = CLAIMED_BY_ANOTHER_WORKER

datatype claimValidationResult =
    Allowed
  | Rejected claimRejectionReason goalClaim

text \<open>
  The collaborators a \<open>GoalClaimPolicy\<close> holds: the claim store (the contract of
  \<open>IGoalClaimStore\<close>, a map keyed by goal id) and the clock (\<open>IClock.nowIso\<close>).
\<close>

record policyState =
  claims :: "string \<rightharpoonup> goalClaim"
  nowIso :: timestamp

section \<open>IGoalClaimStore\<close>

definition IGoalClaimStore_getClaim ::
  "string \<Rightarrow> 'a policyState_scheme \<Rightarrow> goalClaim option \<times> 'a policyState_scheme" where
  "IGoalClaimStore_getClaim g w = (claims w g, w)"

definition IGoalClaimStore_setClaim ::
  "goalClaim \<Rightarrow> 'a policyState_scheme \<Rightarrow> 'a policyState_scheme" where
  "IGoalClaimStore_setClaim claim w = w\<lparr>claims := (claims w)(goalId claim \<mapsto> claim)\<rparr>"

definition IGoalClaimStore_releaseClaim ::
  "string \<Rightarrow> 'a policyState_scheme \<Rightarrow> 'a policyState_scheme" where
  "IGoalClaimStore_releaseClaim g w = w\<lparr>claims := (claims w)(g := None)\<rparr>"

section \<open>GoalClaimPolicy\<close>

definition canClaim ::
  "string \<Rightarrow> workerId \<Rightarrow> 'a policyState_scheme \<Rightarrow> claimValidationResult \<times> 'a policyState_scheme" where
  "canClaim g wid w =
     (let (existingClaim, w1) = IGoalClaimStore_getClaim g w in
      case existingClaim of
        None \<Rightarrow> (Allowed, w1)
      | Some c \<Rightarrow>
          (let now = nowIso w1;
               expiresAt = claimExpiresAt c in
           if now \<ge> expiresAt then (Allowed, w1)
           else if claimedBy c = wid then (Allowed, w1)
           else (Rejected CLAIMED_BY_ANOTHER_WORKER c, w1)))"

definition prepareClaim ::
  "string \<Rightarrow> workerId \<Rightarrow> int \<Rightarrow> 'a policyState_scheme \<Rightarrow> goalClaim \<times> 'a policyState_scheme" where
  "prepareClaim g wid durationMs w =
     (let now = nowIso w;
          expiresAt = now + durationMs in
      (\<lparr>goalId = g, claimedBy = wid, claimedAt = now, claimExpiresAt = expiresAt\<rparr>, w))"

definition storeClaim :: "goalClaim \<Rightarrow> 'a policyState_scheme \<Rightarrow> 'a policyState_scheme" where
  "storeClaim claim w = IGoalClaimStore_setClaim claim w"

definition createClaim ::
  "string \<Rightarrow> workerId \<Rightarrow> int \<Rightarrow> 'a policyState_scheme \<Rightarrow> goalClaim \<times> 'a policyState_scheme" where
  "createClaim g wid durationMs w =
     (let (claim, w1) = prepareClaim g wid durationMs w in
      (claim, IGoalClaimStore_setClaim claim w1))"

definition prepareRefreshedClaim ::
  "string \<Rightarrow> workerId \<Rightarrow> int \<Rightarrow> 'a policyState_scheme \<Rightarrow> goalClaim \<times> 'a policyState_scheme" where
  "prepareRefreshedClaim g wid durationMs w =
     (let (existingClaim, w1) = IGoalClaimStore_getClaim g w;
          now = nowIso w1;
          expiresAt = now + durationMs in
      (\<lparr>goalId = g, claimedBy = wid,
        claimedAt = (case existingClaim of Some c \<Rightarrow> claimedAt c | None \<Rightarrow> now),
        claimExpiresAt = expiresAt\<rparr>, w1))"

definition refreshClaim ::
  "string \<Rightarrow> workerId \<Rightarrow> int \<Rightarrow> 'a policyState_scheme \<Rightarrow> goalClaim \<times> 'a policyState_scheme" where
  "refreshClaim g wid durationMs w =
     (let (claim, w1) = prepareRefreshedClaim g wid durationMs w in
      (claim, IGoalClaimStore_setClaim claim w1))"

definition releaseClaim :: "string \<Rightarrow> 'a policyState_scheme \<Rightarrow> 'a policyState_scheme" where
  "releaseClaim g w = IGoalClaimStore_releaseClaim g w"

section \<open>Goal aggregate\<close>

text \<open>
  Modelled from the spec: the values of \<open>GoalStatus\<close> (domain/work/goals/Constants.ts is
  absent). The seven states of section 4.2, with the strings the tests show for them.
\<close>

datatype goalStatus = TODO | DOING | BLOCKED | PAUSED | INREVIEW | QUALIFIED | COMPLETED

fun statusName :: "goalStatus \<Rightarrow> string" where
  "statusName TODO = ''to-do''"
| "statusName DOING = ''doing''"
| "statusName BLOCKED = ''blocked''"
| "statusName PAUSED = ''paused''"
| "statusName INREVIEW = ''in-review''"
| "statusName QUALIFIED = ''qualified''"
| "statusName COMPLETED = ''completed''"

text \<open>
  The planning context a \<open>GoalAddedEvent\<close> may embed; every member is optional
  (Goal.apply.test.ts).
\<close>

record embeddedContext =
  relevantInvariants :: "string list option"
  relevantGuidelines :: "string list option"
  relevantDependencies :: "string list option"
  relevantComponents :: "string list option"
  architecture :: "string option"
  filesToBeCreated :: "string list option"
  filesToBeChanged :: "string list option"

text \<open>
  Event payloads, one constructor per event type. \<open>StartedPayload\<close>, \<open>ResumedPayload\<close>,
  \<open>SubmittedForReviewPayload\<close> and \<open>QualifiedPayload\<close> follow the interfaces
  GoalStartedEvent.ts, GoalResumedEvent.ts, GoalSubmittedForReviewEvent and
  GoalQualifiedEvent; the others follow the event literals of the tests. Every payload
  carries the resulting status first.
\<close>

datatype payload =
    AddedPayload goalStatus string "string list" "string list" "string list" "string list"
      embeddedContext
  | StartedPayload goalStatus "workerId option" "timestamp option" "timestamp option"
  | PausedPayload goalStatus string "string option"
  | ResumedPayload goalStatus "string option" "workerId option" "timestamp option"
      "timestamp option"
  | SubmittedForReviewPayload goalStatus timestamp
  | QualifiedPayload goalStatus timestamp
  | CompletedPayload goalStatus
  | ResetPayload goalStatus

fun payloadStatus :: "payload \<Rightarrow> goalStatus" where
  "payloadStatus (AddedPayload s _ _ _ _ _ _) = s"
| "payloadStatus (StartedPayload s _ _ _) = s"
| "payloadStatus (PausedPayload s _ _) = s"
| "payloadStatus (ResumedPayload s _ _ _ _) = s"
| "payloadStatus (SubmittedForReviewPayload s _) = s"
| "payloadStatus (QualifiedPayload s _) = s"
| "payloadStatus (CompletedPayload s) = s"
| "payloadStatus (ResetPayload s) = s"

text \<open>\<open>BaseEvent\<close> with its payload; the \<open>type\<close> tag is the payload's constructor.\<close>

record goalEvent =
  aggregateId :: string
  eventVersion :: nat
  timestamp :: timestamp
  payload :: payload

text \<open>\<open>GoalState\<close>, with the fields the tests build (\<open>createEmptyGoalState\<close>).\<close>

record goalState =
  stateId :: string
  objective :: string
  successCriteria :: "string list"
  scopeIn :: "string list"
  scopeOut :: "string list"
  boundaries :: "string list"
  status :: goalStatus
  version :: nat
  stateNote :: "string option"
  progress :: "string list"
  planningContext :: embeddedContext

definition noContext :: embeddedContext where
  "noContext = \<lparr>relevantInvariants = None, relevantGuidelines = None,
     relevantDependencies = None, relevantComponents = None, architecture = None,
     filesToBeCreated = None, filesToBeChanged = None\<rparr>"

definition createEmptyGoalState :: "string \<Rightarrow> goalState" where
  "createEmptyGoalState g =
     \<lparr>stateId = g, objective = [], successCriteria = [], scopeIn = [], scopeOut = [],
      boundaries = [], status = TODO, version = 0, stateNote = None, progress = [],
      planningContext = noContext\<rparr>"

definition orKeep :: "'a option \<Rightarrow> 'a option \<Rightarrow> 'a option" where
  "orKeep new old = (case new of None \<Rightarrow> old | Some v \<Rightarrow> Some v)"

definition mergeContext :: "embeddedContext \<Rightarrow> embeddedContext \<Rightarrow> embeddedContext" where
  "mergeContext new old =
     \<lparr>relevantInvariants = orKeep (relevantInvariants new) (relevantInvariants old),
      relevantGuidelines = orKeep (relevantGuidelines new) (relevantGuidelines old),
      relevantDependencies = orKeep (relevantDependencies new) (relevantDependencies old),
      relevantComponents = orKeep (relevantComponents new) (relevantComponents old),
      architecture = orKeep (architecture new) (architecture old),
      filesToBeCreated = orKeep (filesToBeCreated new) (filesToBeCreated old),
      filesToBeChanged = orKeep (filesToBeChanged new) (filesToBeChanged old)\<rparr>"

text \<open>
  Modelled from the spec: the field updates of \<open>Goal.apply\<close> (domain/work/goals/Goal.ts is
  absent; only its tests are present). Section 4.2: every payload carries the resulting
  status; a field an event type does not concern is left untouched (\<open>submitForReview\<close>
  does not alter \<open>note\<close>); planning context is captured at creation, and only the
  members the event provides.
\<close>

fun applyPayload :: "payload \<Rightarrow> goalState \<Rightarrow> goalState" where
  "applyPayload (AddedPayload s obj crit sIn sOut bnd ctx) st =
     st\<lparr>objective := obj, successCriteria := crit, scopeIn := sIn, scopeOut := sOut,
        boundaries := bnd, status := s, planningContext := mergeContext ctx (planningContext st)\<rparr>"
| "applyPayload (StartedPayload s _ _ _) st = st\<lparr>status := s\<rparr>"
| "applyPayload (PausedPayload s _ n) st = st\<lparr>status := s, stateNote := orKeep n (stateNote st)\<rparr>"
| "applyPayload (ResumedPayload s n _ _ _) st = st\<lparr>status := s, stateNote := orKeep n (stateNote st)\<rparr>"
| "applyPayload (SubmittedForReviewPayload s _) st = st\<lparr>status := s\<rparr>"
| "applyPayload (QualifiedPayload s _) st = st\<lparr>status := s\<rparr>"
| "applyPayload (CompletedPayload s) st = st\<lparr>status := s\<rparr>"
| "applyPayload (ResetPayload s) st = st\<lparr>status := s\<rparr>"

text \<open>
  Modelled from the spec: \<open>Goal.apply\<close> (Goal.ts is absent). Section 4.2: "Version
  increments by exactly 1 per applied event, never skipped"; section 3: version is the
  count of applied events.
\<close>

definition Goal_apply :: "goalState \<Rightarrow> goalEvent \<Rightarrow> goalState" where
  "Goal_apply st ev = (applyPayload (payload ev) st)\<lparr>version := version st + 1\<rparr>"

text \<open>
  Modelled from the spec: \<open>Goal.rehydrate\<close> (Goal.ts is absent). Section 4.2:
  "\<open>rehydrate(id, orderedEvents)\<close> folds \<open>apply\<close> over an empty initial state
  (\<open>status = to-do\<close>, \<open>version = 0\<close>)".
\<close>

definition Goal_rehydrate :: "string \<Rightarrow> goalEvent list \<Rightarrow> goalState" where
  "Goal_rehydrate g history = foldl Goal_apply (createEmptyGoalState g) history"

text \<open>
  Applying the events one at a time, as a caller does who holds a state and calls
  \<open>Goal.apply\<close> once for each event in turn.
\<close>

fun applyOneAtATime :: "goalState \<Rightarrow> goalEvent list \<Rightarrow> goalState" where
  "applyOneAtATime st [] = st"
| "applyOneAtATime st (ev # evs) = applyOneAtATime (Goal_apply st ev) evs"







section \<open>Errors and messages\<close>

text \<open>
  What the handlers throw. \<open>GOAL_NOT_FOUND\<close> and \<open>GOAL_CLAIMED_BY_ANOTHER_WORKER\<close> stand
  for \<open>new Error(formatErrorMessage(GoalErrorMessages.K, params))\<close> and keep the
  interpolated parameter (the goal id, the competing claim's expiry);
  \<open>IllegalTransition\<close> is the aggregate's domain error with its message;
  \<open>StorageFailure\<close> is an I/O error of the event log or of a subscriber;
  \<open>OtherError\<close> is an \<open>Error\<close> built from a literal message.
\<close>

datatype error =
    GOAL_NOT_FOUND string
  | GOAL_CLAIMED_BY_ANOTHER_WORKER timestamp
  | IllegalTransition string
  | StorageFailure string
  | OtherError string

text \<open>
  Modelled from the spec: \<open>formatErrorMessage\<close> (Constants.ts is absent). Section 6:
  "a stable message template with interpolated fields". A template is a sequence of
  literal text and named fields; a field without a parameter stays as written.
\<close>

datatype part = Lit string | Field string

fun renderPart :: "(string \<times> string) list \<Rightarrow> part \<Rightarrow> string" where
  "renderPart params (Lit s) = s"
| "renderPart params (Field k) =
     (case map_of params k of Some v \<Rightarrow> v | None \<Rightarrow> ''{'' @ k @ ''}'')"

definition formatErrorMessage :: "part list \<Rightarrow> (string \<times> string) list \<Rightarrow> string" where
  "formatErrorMessage template params = concat (map (renderPart params) template)"

text \<open>
  Modelled from the spec: \<open>GoalErrorMessages.CANNOT_SUBMIT_FOR_REVIEW_IN_STATUS\<close>
  (Constants.ts is absent); the text is the one the tests of the rule expect, "Cannot
  submit goal for review in to-do status".
\<close>

definition CANNOT_SUBMIT_FOR_REVIEW_IN_STATUS :: "part list" where
  "CANNOT_SUBMIT_FOR_REVIEW_IN_STATUS =
     [Lit ''Cannot submit goal for review in '', Field ''status'', Lit '' status'']"

text \<open>
  Modelled from the spec: the message templates of the guards of start, pause, resume,
  qualify and reset (their rule classes and Constants.ts are absent). Section 4.2: the
  guard raises "a domain error naming the illegal status".
\<close>

definition CANNOT_IN_STATUS :: "string \<Rightarrow> part list" where
  "CANNOT_IN_STATUS verb =
     [Lit ''Cannot '', Lit verb, Lit '' goal in '', Field ''status'', Lit '' status'']"

text \<open>
  Modelled from the spec: \<open>GoalErrorMessages.NOT_QUALIFIED\<close> (Constants.ts is absent), the
  error of a completion that the guard refuses. The tests of the controllers format it
  with no parameters, \<open>formatErrorMessage(GoalErrorMessages.NOT_QUALIFIED, {})\<close>; its text
  is not among the sources, and the template stands here as its key, without fields.
\<close>

definition NOT_QUALIFIED :: "part list" where
  "NOT_QUALIFIED = [Lit ''NOT_QUALIFIED'']"

section \<open>CanSubmitForReviewRule\<close>

record validationResult =
  isValid :: bool
  errors :: "string list"

definition CanSubmitForReviewRule_validate :: "goalState \<Rightarrow> validationResult" where
  "CanSubmitForReviewRule_validate state =
     (let validStatuses = [DOING, BLOCKED];
          valid = List.member validStatuses (status state) in
      \<lparr>isValid = valid,
       errors = (if valid then []
                 else [formatErrorMessage CANNOT_SUBMIT_FOR_REVIEW_IN_STATUS
                         [(''status'', statusName (status state))]])\<rparr>)"

section \<open>Goal transitions\<close>

text \<open>
  Modelled from the spec: the guards of the rules other than \<open>CanSubmitForReviewRule\<close>
  (absent). A status outside the listed ones gives the error message of the template.
\<close>

definition guardStatus :: "goalStatus list \<Rightarrow> part list \<Rightarrow> goalState \<Rightarrow> validationResult" where
  "guardStatus validStatuses template state =
     (let valid = List.member validStatuses (status state) in
      \<lparr>isValid = valid,
       errors = (if valid then []
                 else [formatErrorMessage template [(''status'', statusName (status state))]])\<rparr>)"

text \<open>
  Modelled from the spec: how a transition method of \<open>Goal\<close> uses its rule (Goal.ts is
  absent). Section 4.2 (a), (b): the guard is evaluated against the current state and
  raises the domain error; otherwise a new event is built, for the version after the
  current one, with the resulting status in its payload.
\<close>

definition transition ::
  "validationResult \<Rightarrow> goalState \<Rightarrow> timestamp \<Rightarrow> payload \<Rightarrow> error + goalEvent" where
  "transition check state now p =
     (if isValid check
      then Inr \<lparr>aggregateId = stateId state, eventVersion = version state + 1,
                timestamp = now, payload = p\<rparr>
      else Inl (IllegalTransition (concat (errors check))))"

text \<open>
  Modelled from the spec: the seven transition methods of \<open>Goal\<close> (Goal.ts is absent),
  from the table of section 4.2. \<open>start\<close>: to-do to doing; \<open>pause\<close>: doing, blocked to
  paused; \<open>resume\<close>: paused to doing; \<open>submitForReview\<close>: doing, blocked to in-review
  (the rule of the source); \<open>qualify\<close>: in-review to qualified; \<open>complete\<close>: qualified to
  completed, refused otherwise with the message of \<open>NOT_QUALIFIED\<close>; \<open>reset\<close>: any
  non-terminal status to to-do. The claim passed to \<open>start\<close> and
  \<open>resume\<close> is \<open>{claimedBy, claimedAt, claimExpiresAt}\<close>, as the handlers build it.
\<close>

type_synonym claimFields = "workerId \<times> timestamp \<times> timestamp"

definition Goal_start :: "goalState \<Rightarrow> claimFields \<Rightarrow> timestamp \<Rightarrow> error + goalEvent" where
  "Goal_start state claim now =
     (case claim of (who, since, expires) \<Rightarrow>
        transition (guardStatus [TODO] (CANNOT_IN_STATUS ''start'') state) state now
          (StartedPayload DOING (Some who) (Some since) (Some expires)))"

definition Goal_pause :: "goalState \<Rightarrow> string \<Rightarrow> string option \<Rightarrow> timestamp \<Rightarrow> error + goalEvent" where
  "Goal_pause state reason n now =
     transition (guardStatus [DOING, BLOCKED] (CANNOT_IN_STATUS ''pause'') state) state now
       (PausedPayload PAUSED reason n)"

definition Goal_resume ::
  "goalState \<Rightarrow> string option \<Rightarrow> claimFields \<Rightarrow> timestamp \<Rightarrow> error + goalEvent" where
  "Goal_resume state n claim now =
     (case claim of (who, since, expires) \<Rightarrow>
        transition (guardStatus [PAUSED] (CANNOT_IN_STATUS ''resume'') state) state now
          (ResumedPayload DOING n (Some who) (Some since) (Some expires)))"

definition Goal_submitForReview :: "goalState \<Rightarrow> timestamp \<Rightarrow> error + goalEvent" where
  "Goal_submitForReview state now =
     transition (CanSubmitForReviewRule_validate state) state now
       (SubmittedForReviewPayload INREVIEW now)"

definition Goal_qualify :: "goalState \<Rightarrow> timestamp \<Rightarrow> error + goalEvent" where
  "Goal_qualify state now =
     transition (guardStatus [INREVIEW] (CANNOT_IN_STATUS ''qualify'') state) state now
       (QualifiedPayload QUALIFIED now)"

definition Goal_complete :: "goalState \<Rightarrow> timestamp \<Rightarrow> error + goalEvent" where
  "Goal_complete state now =
     (let valid = (status state = QUALIFIED) in
      transition
        \<lparr>isValid = valid,
         errors = (if valid then [] else [formatErrorMessage NOT_QUALIFIED []])\<rparr>
        state now (CompletedPayload COMPLETED))"

definition Goal_reset :: "goalState \<Rightarrow> timestamp \<Rightarrow> error + goalEvent" where
  "Goal_reset state now =
     transition
       (guardStatus [TODO, DOING, BLOCKED, PAUSED, INREVIEW, QUALIFIED]
          (CANNOT_IN_STATUS ''reset'') state)
       state now (ResetPayload TODO)"

section \<open>Read model\<close>

text \<open>
  A row of the table \<open>goal_views\<close>, with the columns of the schema (the \<open>CREATE TABLE\<close>
  of SqliteGoalQualifiedProjector.test.ts and migration 004); a nullable column is an
  option. The table is the list of its rows.
\<close>

record goalViewRow =
  rowGoalId :: string
  rowObjective :: string
  rowSuccessCriteria :: string
  rowScopeIn :: string
  rowScopeOut :: string
  rowBoundaries :: string
  rowStatus :: goalStatus
  rowVersion :: nat
  rowCreatedAt :: timestamp
  rowUpdatedAt :: timestamp
  rowNote :: "string option"
  rowProgress :: string
  rowClaimedBy :: "workerId option"
  rowClaimedAt :: "timestamp option"
  rowClaimExpiresAt :: "timestamp option"
  rowNextGoalId :: "string option"

text \<open>
  \<open>SqliteGoalQualifiedProjector.applyGoalQualified\<close>: the statement
  \<open>UPDATE goal_views SET status = ?, claimedBy = NULL, claimedAt = NULL,
  claimExpiresAt = NULL, version = ?, updatedAt = ? WHERE goalId = ?\<close>, run with
  \<open>event.payload.status\<close>, \<open>event.version\<close>, \<open>event.timestamp\<close>, \<open>event.aggregateId\<close>.
\<close>

definition applyGoalQualified :: "goalEvent \<Rightarrow> goalViewRow list \<Rightarrow> goalViewRow list" where
  "applyGoalQualified event goal_views =
     map (\<lambda>row.
            if rowGoalId row = aggregateId event
            then row\<lparr>rowStatus := payloadStatus (payload event),
                     rowClaimedBy := None,
                     rowClaimedAt := None,
                     rowClaimExpiresAt := None,
                     rowVersion := eventVersion event,
                     rowUpdatedAt := timestamp event\<rparr>
            else row)
         goal_views"

text \<open>\<open>GoalQualifiedEventHandler.handle\<close> passes the event on to the projector.\<close>

definition GoalQualifiedEventHandler_handle ::
  "goalEvent \<Rightarrow> goalViewRow list \<Rightarrow> goalViewRow list" where
  "GoalQualifiedEventHandler_handle event goal_views = applyGoalQualified event goal_views"

text \<open>
  \<open>findById\<close>: \<open>SELECT * FROM goal_views WHERE goalId = ?\<close> with \<open>get\<close>, the first row
  that matches or null.
\<close>

definition findById :: "string \<Rightarrow> goalViewRow list \<Rightarrow> goalViewRow option" where
  "findById g goal_views = List.find (\<lambda>row. rowGoalId row = g) goal_views"

section \<open>Command handlers\<close>

text \<open>
  What a command sees besides the policy's claim store and clock: the read model, the
  event log (\<open>readStream\<close> per aggregate id) and the events the bus has published.
\<close>

record world = policyState +
  goal_views :: "goalViewRow list"
  eventLog :: "string \<Rightarrow> goalEvent list"
  published :: "goalEvent list"

text \<open>
  The two collaborators that may fail: the event writer's \<open>append\<close> on the event log, and
  the subscribers the bus delivers a published event to, which update the read model.
  Each gives the new content, or the message of the I/O error it throws.
\<close>

record ports =
  appendEvent :: "goalEvent \<Rightarrow> (string \<Rightarrow> goalEvent list) \<Rightarrow> string + (string \<Rightarrow> goalEvent list)"
  deliverEvent :: "goalEvent \<Rightarrow> goalViewRow list \<Rightarrow> string + goalViewRow list"

record settings =
  claimDurationMinutes :: int
  defaultTurnLimit :: int

definition eventWriter_append :: "ports \<Rightarrow> goalEvent \<Rightarrow> world \<Rightarrow> (error + unit) \<times> world" where
  "eventWriter_append io event w =
     (case appendEvent io event (eventLog w) of
        Inl message \<Rightarrow> (Inl (StorageFailure message), w)
      | Inr log' \<Rightarrow> (Inr (), w\<lparr>eventLog := log'\<rparr>))"

definition eventBus_publish :: "ports \<Rightarrow> goalEvent \<Rightarrow> world \<Rightarrow> (error + unit) \<times> world" where
  "eventBus_publish io event w =
     (case deliverEvent io event (goal_views w) of
        Inl message \<Rightarrow> (Inl (StorageFailure message), w)
      | Inr rows \<Rightarrow> (Inr (), w\<lparr>goal_views := rows, published := published w @ [event]\<rparr>))"

definition readStream :: "string \<Rightarrow> world \<Rightarrow> goalEvent list" where
  "readStream g w = eventLog w g"

text \<open>
  The form steps 6 to 8 have in every handler below, \<open>await eventWriter.append\<close>, then
  the claim-store call of the handler, then \<open>await eventBus.publish\<close>, where an exception
  of a step leaves the later steps undone. The handlers write the steps out as the source
  does; the proofs fold them into this function.
\<close>

definition persistThenPublish ::
  "ports \<Rightarrow> goalEvent \<Rightarrow> (world \<Rightarrow> world) \<Rightarrow> string \<Rightarrow> world \<Rightarrow> (error + string) \<times> world" where
  "persistThenPublish io event claimStep g w =
     (case eventWriter_append io event w of
        (Inl err, w1) \<Rightarrow> (Inl err, w1)
      | (Inr _, w1) \<Rightarrow>
          (let w2 = claimStep w1 in
           case eventBus_publish io event w2 of
             (Inl err, w3) \<Rightarrow> (Inl err, w3)
           | (Inr _, w3) \<Rightarrow> (Inr g, w3)))"

definition StartGoalCommandHandler_execute ::
  "ports \<Rightarrow> workerId \<Rightarrow> settings \<Rightarrow> string \<Rightarrow> world \<Rightarrow> (error + string) \<times> world" where
  "StartGoalCommandHandler_execute io workerId cfg g w =
     (case findById g (goal_views w) of
        None \<Rightarrow> (Inl (GOAL_NOT_FOUND g), w)
      | Some view \<Rightarrow>
          (case canClaim g workerId w of
             (Rejected reason existingClaim, w1) \<Rightarrow>
               (Inl (GOAL_CLAIMED_BY_ANOTHER_WORKER (claimExpiresAt existingClaim)), w1)
           | (Allowed, w1) \<Rightarrow>
               (let history = readStream g w1;
                    goal = Goal_rehydrate g history;
                    claimDurationMs = claimDurationMinutes cfg * 60 * 1000;
                    (claim, w2) = prepareClaim g workerId claimDurationMs w1 in
                case Goal_start goal (claimedBy claim, claimedAt claim, claimExpiresAt claim)
                       (nowIso w2) of
                  Inl err \<Rightarrow> (Inl err, w2)
                | Inr event \<Rightarrow>
                  (case eventWriter_append io event w2 of
                     (Inl err, w3) \<Rightarrow> (Inl err, w3)
                   | (Inr _, w3) \<Rightarrow>
                       (let w4 = storeClaim claim w3 in
                        case eventBus_publish io event w4 of
                          (Inl err, w5) \<Rightarrow> (Inl err, w5)
                        | (Inr _, w5) \<Rightarrow> (Inr g, w5))))))"

definition ResumeGoalCommandHandler_execute ::
  "ports \<Rightarrow> workerId \<Rightarrow> settings \<Rightarrow> string \<Rightarrow> string option \<Rightarrow> world \<Rightarrow> (error + string) \<times> world" where
  "ResumeGoalCommandHandler_execute io workerId cfg g commandNote w =
     (case findById g (goal_views w) of
        None \<Rightarrow> (Inl (GOAL_NOT_FOUND g), w)
      | Some view \<Rightarrow>
          (case canClaim g workerId w of
             (Rejected reason existingClaim, w1) \<Rightarrow>
               (Inl (GOAL_CLAIMED_BY_ANOTHER_WORKER (claimExpiresAt existingClaim)), w1)
           | (Allowed, w1) \<Rightarrow>
               (let history = readStream g w1;
                    goal = Goal_rehydrate g history;
                    claimDurationMs = claimDurationMinutes cfg * 60 * 1000;
                    (claim, w2) = prepareRefreshedClaim g workerId claimDurationMs w1 in
                case Goal_resume goal commandNote
                       (claimedBy claim, claimedAt claim, claimExpiresAt claim) (nowIso w2) of
                  Inl err \<Rightarrow> (Inl err, w2)
                | Inr event \<Rightarrow>
                  (case eventWriter_append io event w2 of
                     (Inl err, w3) \<Rightarrow> (Inl err, w3)
                   | (Inr _, w3) \<Rightarrow>
                       (let w4 = storeClaim claim w3 in
                        case eventBus_publish io event w4 of
                          (Inl err, w5) \<Rightarrow> (Inl err, w5)
                        | (Inr _, w5) \<Rightarrow> (Inr g, w5))))))"

definition CompleteGoalCommandHandler_execute ::
  "ports \<Rightarrow> workerId \<Rightarrow> string \<Rightarrow> world \<Rightarrow> (error + string) \<times> world" where
  "CompleteGoalCommandHandler_execute io workerId g w =
     (case findById g (goal_views w) of
        None \<Rightarrow> (Inl (GOAL_NOT_FOUND g), w)
      | Some view \<Rightarrow>
          (case canClaim g workerId w of
             (Rejected reason existingClaim, w1) \<Rightarrow>
               (Inl (GOAL_CLAIMED_BY_ANOTHER_WORKER (claimExpiresAt existingClaim)), w1)
           | (Allowed, w1) \<Rightarrow>
               (let history = readStream g w1;
                    goal = Goal_rehydrate g history in
                case Goal_complete goal (nowIso w1) of
                  Inl err \<Rightarrow> (Inl err, w1)
                | Inr event \<Rightarrow>
                  (case eventWriter_append io event w1 of
                     (Inl err, w3) \<Rightarrow> (Inl err, w3)
                   | (Inr _, w3) \<Rightarrow>
                       (let w4 = releaseClaim g w3 in
                        case eventBus_publish io event w4 of
                          (Inl err, w5) \<Rightarrow> (Inl err, w5)
                        | (Inr _, w5) \<Rightarrow> (Inr g, w5))))))"

definition ResetGoalCommandHandler_execute ::
  "ports \<Rightarrow> workerId \<Rightarrow> string \<Rightarrow> world \<Rightarrow> (error + string) \<times> world" where
  "ResetGoalCommandHandler_execute io workerId g w =
     (case findById g (goal_views w) of
        None \<Rightarrow> (Inl (GOAL_NOT_FOUND g), w)
      | Some view \<Rightarrow>
          (case canClaim g workerId w of
             (Rejected reason existingClaim, w1) \<Rightarrow>
               (Inl (GOAL_CLAIMED_BY_ANOTHER_WORKER (claimExpiresAt existingClaim)), w1)
           | (Allowed, w1) \<Rightarrow>
               (let history = readStream g w1;
                    goal = Goal_rehydrate g history in
                case Goal_reset goal (nowIso w1) of
                  Inl err \<Rightarrow> (Inl err, w1)
                | Inr event \<Rightarrow>
                  (case eventWriter_append io event w1 of
                     (Inl err, w3) \<Rightarrow> (Inl err, w3)
                   | (Inr _, w3) \<Rightarrow>
                       (let w4 = releaseClaim g w3 in
                        case eventBus_publish io event w4 of
                          (Inl err, w5) \<Rightarrow> (Inl err, w5)
                        | (Inr _, w5) \<Rightarrow> (Inr g, w5))))))"

text \<open>
  Modelled from the spec: \<open>PauseGoalCommandHandler.execute\<close> (absent from the sources).
  Section 4.4: every handler follows the same skeleton, existence check, claim validation
  via \<open>canClaim\<close>, rehydration, the aggregate's transition, append, publish; section 3
  names no claim-store step for a pause.
\<close>

definition PauseGoalCommandHandler_execute ::
  "ports \<Rightarrow> workerId \<Rightarrow> string \<Rightarrow> string \<Rightarrow> string option \<Rightarrow> world \<Rightarrow> (error + string) \<times> world" where
  "PauseGoalCommandHandler_execute io workerId g reason commandNote w =
     (case findById g (goal_views w) of
        None \<Rightarrow> (Inl (GOAL_NOT_FOUND g), w)
      | Some view \<Rightarrow>
          (case canClaim g workerId w of
             (Rejected reason' existingClaim, w1) \<Rightarrow>
               (Inl (GOAL_CLAIMED_BY_ANOTHER_WORKER (claimExpiresAt existingClaim)), w1)
           | (Allowed, w1) \<Rightarrow>
               (let history = readStream g w1;
                    goal = Goal_rehydrate g history in
                case Goal_pause goal reason commandNote (nowIso w1) of
                  Inl err \<Rightarrow> (Inl err, w1)
                | Inr event \<Rightarrow>
                  (case eventWriter_append io event w1 of
                     (Inl err, w3) \<Rightarrow> (Inl err, w3)
                   | (Inr _, w3) \<Rightarrow>
                       (case eventBus_publish io event w3 of
                          (Inl err, w4) \<Rightarrow> (Inl err, w4)
                        | (Inr _, w4) \<Rightarrow> (Inr g, w4))))))"

text \<open>
  The order of steps 6 to 8, as an outcome \<open>out\<close> of a handler run on \<open>w\<close> shows it, for
  the result \<open>tr\<close> of the aggregate's transition and the content \<open>cl'\<close> the handler's
  claim-store call gives the store: when the append of the event of \<open>tr\<close> fails, the run
  fails and \<open>w\<close> is unchanged; whenever \<open>w\<close> has changed, the event of \<open>tr\<close> was appended
  and the store holds \<open>cl'\<close>, and either nothing was published and the run failed, or the
  event was published last and the run succeeded; and a run succeeds only that way.
\<close>

definition appendThenClaimThenPublish ::
  "ports \<Rightarrow> string \<Rightarrow> error + goalEvent \<Rightarrow> (string \<rightharpoonup> goalClaim) \<Rightarrow> world \<Rightarrow>
   (error + string) \<times> world \<Rightarrow> bool" where
  "appendThenClaimThenPublish io g tr cl' w out =
     ((\<forall>ev. tr = Inr ev \<and> isl (appendEvent io ev (eventLog w)) \<longrightarrow>
         isl (fst out) \<and> snd out = w) \<and>
      (snd out = w \<or>
       (\<exists>ev log'. tr = Inr ev \<and> appendEvent io ev (eventLog w) = Inr log' \<and>
          eventLog (snd out) = log' \<and> claims (snd out) = cl' \<and>
          (published (snd out) = published w \<and> isl (fst out) \<or>
           published (snd out) = published w @ [ev] \<and> fst out = Inr g))) \<and>
      (\<forall>g'. fst out = Inr g' \<longrightarrow>
         g' = g \<and>
         (\<exists>ev log'. tr = Inr ev \<and> appendEvent io ev (eventLog w) = Inr log' \<and>
            eventLog (snd out) = log' \<and> claims (snd out) = cl' \<and>
            published (snd out) = published w @ [ev])))"

section \<open>Controllers\<close>

text \<open>
  Modelled from the spec: \<open>GoalErrorMessages.CANNOT_QUALIFY_IN_STATUS\<close> (Constants.ts is
  absent), a message naming the status.
\<close>

definition CANNOT_QUALIFY_IN_STATUS :: "part list" where
  "CANNOT_QUALIFY_IN_STATUS = CANNOT_IN_STATUS ''qualify''"

record 'c reviewGoalResponse =
  reviewGoalId :: string
  reviewObjective :: string
  reviewStatus :: goalStatus
  criteria :: 'c

record qualifyGoalResponse =
  qualifyGoalId :: string
  qualifyObjective :: string
  qualifyStatus :: goalStatus
  nextGoalId :: "string option"

record completeGoalResponse =
  completeGoalId :: string
  completeObjective :: string
  completeStatus :: goalStatus
  nextGoal :: "(string \<times> string \<times> goalStatus) option"

text \<open>
  \<open>ReviewGoalController.handle\<close>. \<open>SubmitGoalForReviewCommandHandler.execute\<close> and
  \<open>GetGoalContextQueryHandler.execute\<close> are not among the sources and are parameters.
\<close>

definition ReviewGoalController_handle ::
  "(string \<Rightarrow> world \<Rightarrow> (error + string) \<times> world) \<Rightarrow> (string \<Rightarrow> world \<Rightarrow> error + 'c) \<Rightarrow>
   workerId \<Rightarrow> string \<Rightarrow> world \<Rightarrow> (error + 'c reviewGoalResponse) \<times> world" where
  "ReviewGoalController_handle submitExecute getGoalContext workerId g w =
     (case canClaim g workerId w of
        (Rejected reason existingClaim, w1) \<Rightarrow>
          (Inl (GOAL_CLAIMED_BY_ANOTHER_WORKER (claimExpiresAt existingClaim)), w1)
      | (Allowed, w1) \<Rightarrow>
          (case findById g (goal_views w1) of
             None \<Rightarrow> (Inl (GOAL_NOT_FOUND g), w1)
           | Some goalView \<Rightarrow>
               (case submitExecute g w1 of
                  (Inl err, w2) \<Rightarrow> (Inl err, w2)
                | (Inr _, w2) \<Rightarrow>
                    (case findById g (goal_views w2) of
                       None \<Rightarrow>
                         (Inl (OtherError (''Goal not found after review submission: '' @ g)), w2)
                     | Some updatedGoalView \<Rightarrow>
                         (case getGoalContext g w2 of
                            Inl err \<Rightarrow> (Inl err, w2)
                          | Inr goalContext \<Rightarrow>
                              (Inr \<lparr>reviewGoalId = g,
                                    reviewObjective = rowObjective updatedGoalView,
                                    reviewStatus = rowStatus updatedGoalView,
                                    criteria = goalContext\<rparr>, w2))))))"

text \<open>
  \<open>QualifyGoalController.handle\<close>. \<open>QualifyGoalCommandHandler.execute\<close> is not among the
  sources and is a parameter.
\<close>

definition QualifyGoalController_handle ::
  "(string \<Rightarrow> world \<Rightarrow> (error + string) \<times> world) \<Rightarrow>
   workerId \<Rightarrow> string \<Rightarrow> world \<Rightarrow> (error + qualifyGoalResponse) \<times> world" where
  "QualifyGoalController_handle qualifyExecute workerId g w =
     (case canClaim g workerId w of
        (Rejected reason existingClaim, w1) \<Rightarrow>
          (Inl (GOAL_CLAIMED_BY_ANOTHER_WORKER (claimExpiresAt existingClaim)), w1)
      | (Allowed, w1) \<Rightarrow>
          (case findById g (goal_views w1) of
             None \<Rightarrow> (Inl (GOAL_NOT_FOUND g), w1)
           | Some goalView \<Rightarrow>
               if rowStatus goalView \<noteq> INREVIEW
               then (Inl (IllegalTransition
                            (formatErrorMessage CANNOT_QUALIFY_IN_STATUS
                               [(''status'', statusName (rowStatus goalView))])), w1)
               else
                 (case qualifyExecute g w1 of
                    (Inl err, w2) \<Rightarrow> (Inl err, w2)
                  | (Inr _, w2) \<Rightarrow>
                      (case findById g (goal_views w2) of
                         None \<Rightarrow>
                           (Inl (OtherError (''Goal not found after qualification: '' @ g)), w2)
                       | Some updatedGoalView \<Rightarrow>
                           (Inr \<lparr>qualifyGoalId = g,
                                 qualifyObjective = rowObjective updatedGoalView,
                                 qualifyStatus = rowStatus updatedGoalView,
                                 nextGoalId = rowNextGoalId updatedGoalView\<rparr>, w2)))))"

text \<open>\<open>CompleteGoalController.handle\<close>, over the command handler of the source.\<close>

definition CompleteGoalController_handle ::
  "ports \<Rightarrow> workerId \<Rightarrow> string \<Rightarrow> world \<Rightarrow> (error + completeGoalResponse) \<times> world" where
  "CompleteGoalController_handle io workerId g w =
     (case canClaim g workerId w of
        (Rejected reason existingClaim, w1) \<Rightarrow>
          (Inl (GOAL_CLAIMED_BY_ANOTHER_WORKER (claimExpiresAt existingClaim)), w1)
      | (Allowed, w1) \<Rightarrow>
          (case CompleteGoalCommandHandler_execute io workerId g w1 of
             (Inl err, w2) \<Rightarrow> (Inl err, w2)
           | (Inr _, w2) \<Rightarrow>
               (case findById g (goal_views w2) of
                  None \<Rightarrow> (Inl (OtherError (''Goal not found after completion: '' @ g)), w2)
                | Some goalView \<Rightarrow>
                    (let nextGoalView =
                           (case rowNextGoalId goalView of
                              None \<Rightarrow> None
                            | Some n \<Rightarrow> if n = [] then None else findById n (goal_views w2)) in
                     (Inr \<lparr>completeGoalId = g,
                           completeObjective = rowObjective goalView,
                           completeStatus = rowStatus goalView,
                           nextGoal = map_option
                             (\<lambda>v. (rowGoalId v, rowObjective v, rowStatus v)) nextGoalView\<rparr>,
                      w2)))))"

section \<open>FsGoalClaimStore\<close>

text \<open>
  The file \<open>claims.json\<close> is its content, or \<open>None\<close> when it does not exist
  (\<open>fs.existsSync\<close>). \<open>ClaimStoreData\<close> is \<open>{claims: Record<string, GoalClaim>}\<close>; the
  record is a plain JavaScript object, given here by its own properties.
  \<open>JSON.parse(content) as ClaimStoreData\<close> and \<open>JSON.stringify\<close> are library functions and
  are parameters: \<open>parse\<close> gives \<open>None\<close> when \<open>JSON.parse\<close> throws, and its result is taken
  at its declared type, as the source's cast does; \<open>stringify\<close> writes the own properties.
\<close>

type_synonym claimStoreData = "string \<rightharpoonup> goalClaim"

text \<open>
  The object \<open>{}\<close> of \<open>loadData\<close> and the objects \<open>JSON.parse\<close> builds inherit from
  \<open>Object.prototype\<close>, whose members have these names. Reading \<open>data.claims[goalId]\<close>
  gives the own property of that name, else the inherited member of that name, else
  \<open>undefined\<close>. Writing \<open>data.claims[goalId] = claim\<close> makes an own property, except that
  writing \<open>__proto__\<close> on an object without an own property of that name runs the
  inherited setter, which replaces the prototype and makes no own property.
  \<open>delete data.claims[goalId]\<close> removes an own property.
\<close>

definition objectPrototypeMembers :: "string list" where
  "objectPrototypeMembers =
     [''constructor'', ''__defineGetter__'', ''__defineSetter__'', ''hasOwnProperty'',
      ''__lookupGetter__'', ''__lookupSetter__'', ''isPrototypeOf'', ''propertyIsEnumerable'',
      ''toString'', ''valueOf'', ''__proto__'', ''toLocaleString'']"

datatype storedValue =
    Claim goalClaim
  | InheritedMember string

definition propertyGet :: "claimStoreData \<Rightarrow> string \<Rightarrow> storedValue option" where
  "propertyGet claimsObject k =
     (case claimsObject k of
        Some c \<Rightarrow> Some (Claim c)
      | None \<Rightarrow> if List.member objectPrototypeMembers k then Some (InheritedMember k) else None)"

definition propertySet :: "claimStoreData \<Rightarrow> string \<Rightarrow> goalClaim \<Rightarrow> claimStoreData" where
  "propertySet claimsObject k c =
     (if k = ''__proto__'' \<and> claimsObject k = None then claimsObject
      else claimsObject(k \<mapsto> c))"

definition propertyDelete :: "claimStoreData \<Rightarrow> string \<Rightarrow> claimStoreData" where
  "propertyDelete claimsObject k = claimsObject(k := None)"

definition loadData :: "(string \<Rightarrow> claimStoreData option) \<Rightarrow> string option \<Rightarrow> claimStoreData" where
  "loadData parse file =
     (case file of
        Some content \<Rightarrow> (case parse content of Some data \<Rightarrow> data | None \<Rightarrow> Map.empty)
      | None \<Rightarrow> Map.empty)"

definition saveData :: "(claimStoreData \<Rightarrow> string) \<Rightarrow> claimStoreData \<Rightarrow> string option \<Rightarrow> string option" where
  "saveData stringify data file = Some (stringify data)"

text \<open>
  \<open>getClaim\<close> returns \<open>data.claims[goalId] ?? null\<close>: whatever the read gives, and null
  (\<open>None\<close>) for \<open>undefined\<close>.
\<close>

definition FsGoalClaimStore_getClaim ::
  "(string \<Rightarrow> claimStoreData option) \<Rightarrow> string \<Rightarrow> string option \<Rightarrow> storedValue option \<times> string option" where
  "FsGoalClaimStore_getClaim parse g file =
     (let data = loadData parse file in (propertyGet data g, file))"

definition FsGoalClaimStore_setClaim ::
  "(string \<Rightarrow> claimStoreData option) \<Rightarrow> (claimStoreData \<Rightarrow> string) \<Rightarrow> goalClaim \<Rightarrow>
   string option \<Rightarrow> string option" where
  "FsGoalClaimStore_setClaim parse stringify claim file =
     (let data = loadData parse file;
          data' = propertySet data (goalId claim) claim in
      saveData stringify data' file)"

definition FsGoalClaimStore_releaseClaim ::
  "(string \<Rightarrow> claimStoreData option) \<Rightarrow> (claimStoreData \<Rightarrow> string) \<Rightarrow> string \<Rightarrow>
   string option \<Rightarrow> string option" where
  "FsGoalClaimStore_releaseClaim parse stringify g file =
     (let data = loadData parse file;
          data' = propertyDelete data g in
      saveData stringify data' file)"

section \<open>Example values\<close>

text \<open>
  Times are milliseconds of one day: 09:30 is 34200000, 10:00 is 36000000, 10:30 is
  37800000. Worker A claimed \<open>goal_123\<close> at 09:30 until 10:30.
\<close>

definition claimOfA :: goalClaim where
  "claimOfA = \<lparr>goalId = ''goal_123'', claimedBy = ''worker-a-uuid'',
                claimedAt = 34200000, claimExpiresAt = 37800000\<rparr>"

definition noClaims :: "string \<rightharpoonup> goalClaim" where
  "noClaims = Map.empty"

definition claimsOfA :: "string \<rightharpoonup> goalClaim" where
  "claimsOfA = [''goal_123'' \<mapsto> claimOfA]"

definition policyAt :: "timestamp \<Rightarrow> policyState" where
  "policyAt t = \<lparr>claims = [''goal_123'' \<mapsto> claimOfA], nowIso = t\<rparr>"

definition emptyPolicy :: policyState where
  "emptyPolicy = \<lparr>claims = Map.empty, nowIso = 36000000\<rparr>"

definition exampleEvent :: "nat \<Rightarrow> payload \<Rightarrow> goalEvent" where
  "exampleEvent n p = \<lparr>aggregateId = ''goal_123'', eventVersion = n, timestamp = 0, payload = p\<rparr>"

definition addedEvent :: goalEvent where
  "addedEvent = exampleEvent 1
     (AddedPayload TODO ''Implement authentication'' [''Users can log in'']
        [''AuthController''] [] [] noContext)"

definition startedEvent :: goalEvent where
  "startedEvent = exampleEvent 2 (StartedPayload DOING None None None)"

definition submittedEvent :: goalEvent where
  "submittedEvent = exampleEvent 3 (SubmittedForReviewPayload INREVIEW 0)"

definition qualifiedEvent :: goalEvent where
  "qualifiedEvent = exampleEvent 4 (QualifiedPayload QUALIFIED 0)"

definition addedHistory :: "goalEvent list" where
  "addedHistory = [addedEvent]"

definition qualifiedHistory :: "goalEvent list" where
  "qualifiedHistory = [addedEvent, startedEvent, submittedEvent, qualifiedEvent]"

definition exampleRow :: "string \<Rightarrow> goalStatus \<Rightarrow> goalViewRow" where
  "exampleRow g st =
     \<lparr>rowGoalId = g, rowObjective = ''Implement authentication'',
      rowSuccessCriteria = ''[]'', rowScopeIn = ''[]'', rowScopeOut = ''[]'',
      rowBoundaries = ''[]'', rowStatus = st, rowVersion = 2, rowCreatedAt = 0,
      rowUpdatedAt = 0, rowNote = None, rowProgress = ''[]'',
      rowClaimedBy = Some ''worker_123'', rowClaimedAt = Some 34200000,
      rowClaimExpiresAt = Some 37800000, rowNextGoalId = None\<rparr>"

definition exampleWorld ::
  "(string \<rightharpoonup> goalClaim) \<Rightarrow> timestamp \<Rightarrow> goalStatus \<Rightarrow> goalEvent list \<Rightarrow> world" where
  "exampleWorld cl t st history =
     \<lparr>claims = cl, nowIso = t, goal_views = [exampleRow ''goal_123'' st],
      eventLog = (\<lambda>g. if g = ''goal_123'' then history else []), published = []\<rparr>"

text \<open>
  Modelled from the spec: \<open>append\<close> of the Event Log (FsEventStore is absent). Section
  4.1: the event is added at the end of the stream of its aggregate id. The bus of
  \<open>workingPorts\<close> has no subscriber that changes the read model.
\<close>

definition workingPorts :: ports where
  "workingPorts =
     \<lparr>appendEvent = (\<lambda>event log. Inr (log(aggregateId event := log (aggregateId event) @ [event]))),
      deliverEvent = (\<lambda>event rows. Inr rows)\<rparr>"

definition unwritableLog :: ports where
  "unwritableLog = workingPorts\<lparr>appendEvent := (\<lambda>event log. Inl ''EACCES'')\<rparr>"

definition failingSubscriber :: ports where
  "failingSubscriber = workingPorts\<lparr>deliverEvent := (\<lambda>event rows. Inl ''SQLITE_BUSY'')\<rparr>"

definition exampleSettings :: settings where
  "exampleSettings = \<lparr>claimDurationMinutes = 30, defaultTurnLimit = 3\<rparr>"

definition corruptParse :: "string \<Rightarrow> claimStoreData option" where
  "corruptParse content = (if content = ''{ invalid json'' then None else Some Map.empty)"

definition twoRows :: "goalViewRow list" where
  "twoRows = [exampleRow ''goal_test-1'' INREVIEW, exampleRow ''goal_test-2'' DOING]"

definition qualifiedTest1 :: goalEvent where
  "qualifiedTest1 = \<lparr>aggregateId = ''goal_test-1'', eventVersion = 3, timestamp = 86400000,
                      payload = QualifiedPayload QUALIFIED 86400000\<rparr>"

definition startedByA :: goalEvent where
  "startedByA = \<lparr>aggregateId = ''goal_123'', eventVersion = 2, timestamp = 36000000,
     payload = StartedPayload DOING (Some ''worker-a-uuid'') (Some 36000000) (Some 37800000)\<rparr>"


definition todoWorld :: world where
  "todoWorld = exampleWorld noClaims 36000000 TODO addedHistory"

definition qualifiedWorld :: "(string \<rightharpoonup> goalClaim) \<Rightarrow> timestamp \<Rightarrow> world" where
  "qualifiedWorld cl t = exampleWorld cl t QUALIFIED qualifiedHistory"

section \<open>Claim policy: the decision rule\<close>

text \<open>
  C1. \<open>canClaim\<close> follows the ordered rule: no claim in the store, allowed; a stored
  claim whose expiry is at or before the clock's time, allowed (the boundary counts as
  expired); a stored claim of the requester, allowed; otherwise rejected with the stored
  claim attached. Hence, while worker A holds a claim that has not expired, any other
  worker B is rejected and A itself is allowed.
\<close>

theorem canClaim_decision_rule:
  "(claims w g = None \<longrightarrow> fst (canClaim g wid w) = Allowed) \<and>
   (\<forall>c. claims w g = Some c \<and> claimExpiresAt c \<le> nowIso w \<longrightarrow>
        fst (canClaim g wid w) = Allowed) \<and>
   (\<forall>c. claims w g = Some c \<and> nowIso w < claimExpiresAt c \<and> claimedBy c = wid \<longrightarrow>
        fst (canClaim g wid w) = Allowed) \<and>
   (\<forall>c. claims w g = Some c \<and> nowIso w < claimExpiresAt c \<and> claimedBy c \<noteq> wid \<longrightarrow>
        fst (canClaim g wid w) = Rejected CLAIMED_BY_ANOTHER_WORKER c) \<and>
   (\<forall>c A B. A \<noteq> B \<and> claims w g = Some c \<and> claimedBy c = A \<and> nowIso w < claimExpiresAt c \<longrightarrow>
        fst (canClaim g B w) = Rejected CLAIMED_BY_ANOTHER_WORKER c \<and>
        fst (canClaim g A w) = Allowed)"
  by (auto simp: canClaim_def IGoalClaimStore_getClaim_def Let_def)

theorem canClaim_decision_rule_witness:
  "fst (canClaim ''goal_123'' ''worker-b-uuid'' emptyPolicy) = Allowed \<and>
   fst (canClaim ''goal_123'' ''worker-b-uuid'' (policyAt 37800000)) = Allowed \<and>
   fst (canClaim ''goal_123'' ''worker-a-uuid'' (policyAt 36000000)) = Allowed \<and>
   fst (canClaim ''goal_123'' ''worker-b-uuid'' (policyAt 36000000))
     = Rejected CLAIMED_BY_ANOTHER_WORKER claimOfA"
  using canClaim_decision_rule [of emptyPolicy "''goal_123''" "''worker-b-uuid''"]
        canClaim_decision_rule [of "policyAt 37800000" "''goal_123''" "''worker-b-uuid''"]
        canClaim_decision_rule [of "policyAt 36000000" "''goal_123''" "''worker-a-uuid''"]
        canClaim_decision_rule [of "policyAt 36000000" "''goal_123''" "''worker-b-uuid''"]
  by (simp add: emptyPolicy_def policyAt_def claimOfA_def)

section \<open>Claim policy: refreshing a claim\<close>

text \<open>
  C6. \<open>prepareRefreshedClaim\<close> keeps the \<open>claimedAt\<close> of the claim the store holds for
  the goal and sets \<open>claimExpiresAt\<close> to the clock's time plus the duration; with no
  claim in the store, \<open>claimedAt\<close> is the clock's time. The store and the clock are left
  as they were.
\<close>

theorem prepareRefreshedClaim_preserves_origin:
  "(\<forall>c. claims w g = Some c \<longrightarrow>
        claimedAt (fst (prepareRefreshedClaim g wid d w)) = claimedAt c) \<and>
   (claims w g = None \<longrightarrow> claimedAt (fst (prepareRefreshedClaim g wid d w)) = nowIso w) \<and>
   claimExpiresAt (fst (prepareRefreshedClaim g wid d w)) = nowIso w + d \<and>
   snd (prepareRefreshedClaim g wid d w) = w"
  by (simp add: prepareRefreshedClaim_def IGoalClaimStore_getClaim_def Let_def)

theorem prepareRefreshedClaim_preserves_origin_witness:
  "claimedAt (fst (prepareRefreshedClaim ''goal_123'' ''worker-a-uuid'' 1800000 (policyAt 36000000)))
     = 34200000 \<and>
   claimedAt (fst (prepareRefreshedClaim ''goal_123'' ''worker-a-uuid'' 1800000 emptyPolicy))
     = 36000000 \<and>
   claimExpiresAt (fst (prepareRefreshedClaim ''goal_123'' ''worker-a-uuid'' 1800000 (policyAt 36000000)))
     = 37800000"
  using prepareRefreshedClaim_preserves_origin
          [of "policyAt 36000000" "''goal_123''" "''worker-a-uuid''" 1800000]
        prepareRefreshedClaim_preserves_origin
          [of emptyPolicy "''goal_123''" "''worker-a-uuid''" 1800000]
  by (simp add: policyAt_def emptyPolicy_def claimOfA_def)

text \<open>
  C9. Neither \<open>prepareRefreshedClaim\<close> nor \<open>refreshClaim\<close> looks at the owner or the expiry
  of the stored claim: whatever claim \<open>c\<close> the store holds for the goal, a refresh for
  worker \<open>B\<close> gives a claim owned by \<open>B\<close> with the \<open>claimedAt\<close> of \<open>c\<close>, and \<open>refreshClaim\<close>
  puts that claim in the store in place of \<open>c\<close>.
\<close>

theorem refreshClaim_no_ownership_check:
  assumes "claims w g = Some c"
  shows "fst (prepareRefreshedClaim g B d w)
           = \<lparr>goalId = g, claimedBy = B, claimedAt = claimedAt c, claimExpiresAt = nowIso w + d\<rparr> \<and>
         fst (refreshClaim g B d w) = fst (prepareRefreshedClaim g B d w) \<and>
         claims (snd (refreshClaim g B d w)) g = Some (fst (prepareRefreshedClaim g B d w))"
  using assms
  by (simp add: prepareRefreshedClaim_def refreshClaim_def IGoalClaimStore_getClaim_def
      IGoalClaimStore_setClaim_def Let_def)

theorem refreshClaim_no_ownership_check_witness:
  "claimedBy claimOfA \<noteq> ''worker-b-uuid'' \<and>
   nowIso (policyAt 36000000) < claimExpiresAt claimOfA \<and>
   claims (policyAt 36000000) ''goal_123'' = Some claimOfA \<and>
   claims (snd (refreshClaim ''goal_123'' ''worker-b-uuid'' 1800000 (policyAt 36000000))) ''goal_123''
     = Some \<lparr>goalId = ''goal_123'', claimedBy = ''worker-b-uuid'', claimedAt = 34200000,
             claimExpiresAt = 37800000\<rparr>"
proof -
  have h: "claims (policyAt 36000000) ''goal_123'' = Some claimOfA"
    by (simp add: policyAt_def)
  show ?thesis
    using refreshClaim_no_ownership_check [OF h, of "''worker-b-uuid''" 1800000]
    by (simp add: policyAt_def claimOfA_def)
qed

section \<open>Goal aggregate: replay\<close>

lemma version_foldl: "version (foldl Goal_apply st evs) = version st + length evs"
  by (induction evs arbitrary: st) (simp_all add: Goal_apply_def)

lemma applyOneAtATime_foldl: "applyOneAtATime st evs = foldl Goal_apply st evs"
  by (induction evs arbitrary: st) simp_all

text \<open>
  C3. The empty initial state has version 0; each applied event raises the version by
  exactly one; hence after a history of N events, replayed at once or applied one at a
  time, the version is N.
\<close>

theorem version_counts_applied_events:
  "version (createEmptyGoalState g) = 0 \<and>
   version (Goal_apply st ev) = version st + 1 \<and>
   version (Goal_rehydrate g history) = length history \<and>
   version (applyOneAtATime (createEmptyGoalState g) history) = length history"
  by (simp add: version_foldl applyOneAtATime_foldl Goal_rehydrate_def Goal_apply_def
      createEmptyGoalState_def)







section \<open>CanSubmitForReviewRule: the statuses it accepts\<close>

lemma CANNOT_SUBMIT_names:
  "sublist v (formatErrorMessage CANNOT_SUBMIT_FOR_REVIEW_IN_STATUS [(''status'', v)])"
proof -
  have "formatErrorMessage CANNOT_SUBMIT_FOR_REVIEW_IN_STATUS [(''status'', v)]
          = ''Cannot submit goal for review in '' @ v @ '' status''"
    by (simp add: formatErrorMessage_def CANNOT_SUBMIT_FOR_REVIEW_IN_STATUS_def)
  then show ?thesis
    by (simp only: sublist_appendI)
qed

text \<open>
  The rule of the source is valid exactly for doing and blocked; for any other status it
  gives one error message, which contains the name of that status.
\<close>

lemma CanSubmitForReviewRule_valid:
  "isValid (CanSubmitForReviewRule_validate st) = (status st = DOING \<or> status st = BLOCKED)"
  by (auto simp: CanSubmitForReviewRule_validate_def Let_def)

lemma CanSubmitForReviewRule_invalid:
  assumes "status st \<noteq> DOING" "status st \<noteq> BLOCKED"
  shows "\<exists>msg. errors (CanSubmitForReviewRule_validate st) = [msg] \<and>
               Goal_submitForReview st now = Inl (IllegalTransition msg) \<and>
               sublist (statusName (status st)) msg"
  using assms CANNOT_SUBMIT_names [of "statusName (status st)"]
  by (simp add: Goal_submitForReview_def transition_def CanSubmitForReviewRule_validate_def
      Let_def)

section \<open>Read model: the projection of a qualified goal\<close>

text \<open>
  C8. \<open>applyGoalQualified\<close> keeps the number of rows; a row whose \<open>goalId\<close> is not the
  event's \<open>aggregateId\<close> is unchanged; in a row whose \<open>goalId\<close> is the \<open>aggregateId\<close>,
  \<open>status\<close> is the payload's status, the three claim columns are null, \<open>version\<close> is the
  event's version, \<open>updatedAt\<close> is the event's timestamp, and the ten other columns are
  unchanged.
\<close>

theorem applyGoalQualified_targets_row:
  "length (applyGoalQualified ev rows) = length rows \<and>
   (\<forall>i < length rows.
      (rowGoalId (rows ! i) \<noteq> aggregateId ev \<longrightarrow> applyGoalQualified ev rows ! i = rows ! i) \<and>
      (rowGoalId (rows ! i) = aggregateId ev \<longrightarrow>
         rowStatus (applyGoalQualified ev rows ! i) = payloadStatus (payload ev) \<and>
         rowClaimedBy (applyGoalQualified ev rows ! i) = None \<and>
         rowClaimedAt (applyGoalQualified ev rows ! i) = None \<and>
         rowClaimExpiresAt (applyGoalQualified ev rows ! i) = None \<and>
         rowVersion (applyGoalQualified ev rows ! i) = eventVersion ev \<and>
         rowUpdatedAt (applyGoalQualified ev rows ! i) = timestamp ev \<and>
         rowGoalId (applyGoalQualified ev rows ! i) = rowGoalId (rows ! i) \<and>
         rowObjective (applyGoalQualified ev rows ! i) = rowObjective (rows ! i) \<and>
         rowSuccessCriteria (applyGoalQualified ev rows ! i) = rowSuccessCriteria (rows ! i) \<and>
         rowScopeIn (applyGoalQualified ev rows ! i) = rowScopeIn (rows ! i) \<and>
         rowScopeOut (applyGoalQualified ev rows ! i) = rowScopeOut (rows ! i) \<and>
         rowBoundaries (applyGoalQualified ev rows ! i) = rowBoundaries (rows ! i) \<and>
         rowCreatedAt (applyGoalQualified ev rows ! i) = rowCreatedAt (rows ! i) \<and>
         rowNote (applyGoalQualified ev rows ! i) = rowNote (rows ! i) \<and>
         rowProgress (applyGoalQualified ev rows ! i) = rowProgress (rows ! i) \<and>
         rowNextGoalId (applyGoalQualified ev rows ! i) = rowNextGoalId (rows ! i)))"
  by (simp add: applyGoalQualified_def)

theorem applyGoalQualified_targets_row_witness:
  "(0::nat) < length twoRows \<and> (1::nat) < length twoRows \<and>
   rowGoalId (twoRows ! 0) = aggregateId qualifiedTest1 \<and>
   rowGoalId (twoRows ! 1) \<noteq> aggregateId qualifiedTest1 \<and>
   rowStatus (applyGoalQualified qualifiedTest1 twoRows ! 0) = QUALIFIED \<and>
   rowClaimedBy (applyGoalQualified qualifiedTest1 twoRows ! 0) = None \<and>
   rowVersion (applyGoalQualified qualifiedTest1 twoRows ! 0) = 3 \<and>
   rowUpdatedAt (applyGoalQualified qualifiedTest1 twoRows ! 0) = 86400000 \<and>
   applyGoalQualified qualifiedTest1 twoRows ! 1 = exampleRow ''goal_test-2'' DOING \<and>
   rowClaimedBy (applyGoalQualified qualifiedTest1 twoRows ! 1) = Some ''worker_123''"
  using applyGoalQualified_targets_row [of qualifiedTest1 twoRows]
  by (simp add: twoRows_def qualifiedTest1_def exampleRow_def)

section \<open>FsGoalClaimStore: a missing or unparseable file\<close>

text \<open>
  With \<open>claims.json\<close> missing, or holding content that does not parse, the store loads the
  empty object: \<open>setClaim\<close> writes the object that holds the new claim alone,
  \<open>releaseClaim\<close> writes the empty object, and \<open>getClaim\<close> gives null for a goal id that
  names no member of \<open>Object.prototype\<close>, but the inherited member for one that does.
\<close>

lemma FsGoalClaimStore_unreadable_is_empty:
  assumes "file = None \<or> (\<exists>content. file = Some content \<and> parse content = None)"
  shows "loadData parse file = Map.empty \<and>
         (\<not> List.member objectPrototypeMembers g \<longrightarrow>
            FsGoalClaimStore_getClaim parse g file = (None, file)) \<and>
         (List.member objectPrototypeMembers g \<longrightarrow>
            FsGoalClaimStore_getClaim parse g file = (Some (InheritedMember g), file)) \<and>
         (goalId claim \<noteq> ''__proto__'' \<longrightarrow>
            FsGoalClaimStore_setClaim parse stringify claim file
              = Some (stringify [goalId claim \<mapsto> claim])) \<and>
         FsGoalClaimStore_releaseClaim parse stringify g file = Some (stringify Map.empty)"
proof -
  from assms have "loadData parse file = Map.empty"
    by (auto simp: loadData_def)
  then show ?thesis
    by (simp add: FsGoalClaimStore_getClaim_def FsGoalClaimStore_setClaim_def
        FsGoalClaimStore_releaseClaim_def saveData_def propertyGet_def propertySet_def
        propertyDelete_def Let_def)
qed

text \<open>
  C10 fails on the code at the goal id \<open>constructor\<close>: with the file missing, and with
  the file unparseable, \<open>getClaim\<close> returns the member every object inherits under that
  name, not null as it does for \<open>goal_123\<close>.
\<close>

theorem FsGoalClaimStore_getClaim_inherited_member:
  "FsGoalClaimStore_getClaim corruptParse ''constructor'' None
     = (Some (InheritedMember ''constructor''), None) \<and>
   FsGoalClaimStore_getClaim corruptParse ''constructor'' (Some ''{ invalid json'')
     = (Some (InheritedMember ''constructor''), Some ''{ invalid json'') \<and>
   FsGoalClaimStore_getClaim corruptParse ''goal_123'' (Some ''{ invalid json'')
     = (None, Some ''{ invalid json'')"
  by (simp add: FsGoalClaimStore_getClaim_def loadData_def propertyGet_def corruptParse_def
      objectPrototypeMembers_def Let_def)

section \<open>Command handlers: append, then claim store, then publish\<close>

lemma canClaim_world: "snd (canClaim g wid w) = w"
  by (simp add: canClaim_def IGoalClaimStore_getClaim_def Let_def split: option.splits)

lemma canClaim_pair:
  "canClaim g wid w = (fst (canClaim g wid w), w)"
  using canClaim_world [of g wid w] by (metis prod.collapse)

lemma steps_fold:
  "(case eventWriter_append io event w of
      (Inl err, w3) \<Rightarrow> (Inl err, w3)
    | (Inr u, w3) \<Rightarrow>
        (let w4 = step w3 in
         case eventBus_publish io event w4 of
           (Inl err, w5) \<Rightarrow> (Inl err, w5)
         | (Inr u, w5) \<Rightarrow> (Inr g, w5)))
   = persistThenPublish io event step g w"
  by (simp add: persistThenPublish_def)

lemma steps_fold_no_claim_step:
  "(case eventWriter_append io event w of
      (Inl err, w3) \<Rightarrow> (Inl err, w3)
    | (Inr u, w3) \<Rightarrow>
        (case eventBus_publish io event w3 of
           (Inl err, w4) \<Rightarrow> (Inl err, w4)
         | (Inr u, w4) \<Rightarrow> (Inr g, w4)))
   = persistThenPublish io event (\<lambda>w. w) g w"
  by (simp add: persistThenPublish_def Let_def split: prod.splits sum.splits)

lemma persistThenPublish_ordered:
  assumes step: "\<And>log'. step (w\<lparr>eventLog := log'\<rparr>) = w\<lparr>eventLog := log', claims := cl'\<rparr>"
  shows "appendThenClaimThenPublish io g (Inr event) cl' w
           (persistThenPublish io event step g w)"
proof (cases "appendEvent io event (eventLog w)")
  case (Inl m)
  then have "persistThenPublish io event step g w = (Inl (StorageFailure m), w)"
    by (simp add: persistThenPublish_def eventWriter_append_def)
  then show ?thesis by (simp add: appendThenClaimThenPublish_def)
next
  case (Inr log')
  show ?thesis
  proof (cases "deliverEvent io event (goal_views w)")
    case (Inl m)
    with Inr have "persistThenPublish io event step g w
                     = (Inl (StorageFailure m), w\<lparr>eventLog := log', claims := cl'\<rparr>)"
      by (simp add: persistThenPublish_def eventWriter_append_def eventBus_publish_def step)
    with Inr show ?thesis by (simp add: appendThenClaimThenPublish_def)
  next
    case (Inr rows)
    with \<open>appendEvent io event (eventLog w) = Inr log'\<close>
    have "persistThenPublish io event step g w
            = (Inr g, w\<lparr>eventLog := log', claims := cl', goal_views := rows,
                        published := published w @ [event]\<rparr>)"
      by (simp add: persistThenPublish_def eventWriter_append_def eventBus_publish_def step)
    with \<open>appendEvent io event (eventLog w) = Inr log'\<close> show ?thesis
      by (simp add: appendThenClaimThenPublish_def)
  qed
qed

lemma failed_unchanged: "appendThenClaimThenPublish io g tr cl' w (Inl e, w)"
  by (simp add: appendThenClaimThenPublish_def)

lemma storeClaim_step:
  "storeClaim claim (w\<lparr>eventLog := log'\<rparr>)
     = w\<lparr>eventLog := log', claims := (claims w)(goalId claim \<mapsto> claim)\<rparr>"
  for w :: world
  by (simp add: storeClaim_def IGoalClaimStore_setClaim_def)

lemma releaseClaim_step:
  "releaseClaim g (w\<lparr>eventLog := log'\<rparr>) = w\<lparr>eventLog := log', claims := (claims w)(g := None)\<rparr>"
  for w :: world
  by (simp add: releaseClaim_def IGoalClaimStore_releaseClaim_def)

lemma Start_ordered:
  assumes "claim = fst (prepareClaim g wid (claimDurationMinutes cfg * 60 * 1000) w)"
  shows "appendThenClaimThenPublish io g
     (Goal_start (Goal_rehydrate g (readStream g w))
        (claimedBy claim, claimedAt claim, claimExpiresAt claim) (nowIso w))
     ((claims w)(g \<mapsto> claim)) w
     (StartGoalCommandHandler_execute io wid cfg g w)"
  unfolding StartGoalCommandHandler_execute_def steps_fold assms
  by (subst canClaim_pair)
     (simp add: prepareClaim_def failed_unchanged persistThenPublish_ordered storeClaim_step
        Let_def split: option.splits claimValidationResult.splits sum.splits)

lemma Resume_ordered:
  assumes "claim = fst (prepareRefreshedClaim g wid (claimDurationMinutes cfg * 60 * 1000) w)"
  shows "appendThenClaimThenPublish io g
     (Goal_resume (Goal_rehydrate g (readStream g w)) n
        (claimedBy claim, claimedAt claim, claimExpiresAt claim) (nowIso w))
     ((claims w)(g \<mapsto> claim)) w
     (ResumeGoalCommandHandler_execute io wid cfg g n w)"
  unfolding ResumeGoalCommandHandler_execute_def steps_fold assms
  by (subst canClaim_pair)
     (simp add: prepareRefreshedClaim_def IGoalClaimStore_getClaim_def failed_unchanged
        persistThenPublish_ordered storeClaim_step Let_def
        split: option.splits claimValidationResult.splits sum.splits)

lemma Complete_ordered:
  "appendThenClaimThenPublish io g (Goal_complete (Goal_rehydrate g (readStream g w)) (nowIso w))
     ((claims w)(g := None)) w
     (CompleteGoalCommandHandler_execute io wid g w)"
  unfolding CompleteGoalCommandHandler_execute_def steps_fold
  by (subst canClaim_pair)
     (simp add: failed_unchanged persistThenPublish_ordered releaseClaim_step Let_def
        split: option.splits claimValidationResult.splits sum.splits)

lemma Reset_ordered:
  "appendThenClaimThenPublish io g (Goal_reset (Goal_rehydrate g (readStream g w)) (nowIso w))
     ((claims w)(g := None)) w
     (ResetGoalCommandHandler_execute io wid g w)"
  unfolding ResetGoalCommandHandler_execute_def steps_fold
  by (subst canClaim_pair)
     (simp add: failed_unchanged persistThenPublish_ordered releaseClaim_step Let_def
        split: option.splits claimValidationResult.splits sum.splits)

text \<open>
  C7. For each of the four command handlers (start, resume, complete, reset), run on a
  world \<open>w\<close>, with \<open>tr\<close> the result of the aggregate's transition on the rehydrated goal
  and \<open>cl'\<close> the content the handler's claim-store call (\<open>storeClaim\<close> of the prepared
  claim, or \<open>releaseClaim\<close>) gives the store: if the append of the event fails, the
  handler fails and the world is unchanged, so the claim store is as it was and nothing is
  published; whenever the world has changed, the event was appended and the store holds
  \<open>cl'\<close>, and either nothing is published and the handler failed (a subscriber's
  failure), or the event is published and the handler succeeded; and the handler succeeds
  only with the event appended, the store holding \<open>cl'\<close> and the event published.
\<close>

theorem claim_store_written_after_append:
  assumes "d = claimDurationMinutes cfg * 60 * 1000"
    and "goal = Goal_rehydrate g (readStream g w)"
    and "started = fst (prepareClaim g wid d w)"
    and "resumed = fst (prepareRefreshedClaim g wid d w)"
    and "(H, tr, cl') \<in>
     {(StartGoalCommandHandler_execute io wid cfg g,
         Goal_start goal (claimedBy started, claimedAt started, claimExpiresAt started) (nowIso w),
         (claims w)(g \<mapsto> started)),
      (ResumeGoalCommandHandler_execute io wid cfg g n,
         Goal_resume goal n (claimedBy resumed, claimedAt resumed, claimExpiresAt resumed)
           (nowIso w),
         (claims w)(g \<mapsto> resumed)),
      (CompleteGoalCommandHandler_execute io wid g, Goal_complete goal (nowIso w),
         (claims w)(g := None)),
      (ResetGoalCommandHandler_execute io wid g, Goal_reset goal (nowIso w),
         (claims w)(g := None))}"
  shows "(\<forall>ev. tr = Inr ev \<and> isl (appendEvent io ev (eventLog w)) \<longrightarrow>
            isl (fst (H w)) \<and> snd (H w) = w \<and>
            claims (snd (H w)) = claims w \<and> published (snd (H w)) = published w) \<and>
         (snd (H w) = w \<or>
          (\<exists>ev log'. tr = Inr ev \<and> appendEvent io ev (eventLog w) = Inr log' \<and>
             eventLog (snd (H w)) = log' \<and> claims (snd (H w)) = cl' \<and>
             (published (snd (H w)) = published w \<and> isl (fst (H w)) \<or>
              published (snd (H w)) = published w @ [ev] \<and> fst (H w) = Inr g))) \<and>
         (\<forall>g'. fst (H w) = Inr g' \<longrightarrow>
            g' = g \<and>
            (\<exists>ev log'. tr = Inr ev \<and> appendEvent io ev (eventLog w) = Inr log' \<and>
               eventLog (snd (H w)) = log' \<and> claims (snd (H w)) = cl' \<and>
               published (snd (H w)) = published w @ [ev]))"
proof -
  have "appendThenClaimThenPublish io g tr cl' w (H w)"
    using assms(5) Start_ordered [of started g wid cfg w io]
      Resume_ordered [of resumed g wid cfg w io n]
      Complete_ordered [of io g w wid] Reset_ordered [of io g w wid]
    unfolding assms(1-4)
    by auto
  then show ?thesis
    unfolding appendThenClaimThenPublish_def by simp
qed

lemmas example_defs =
  exampleWorld_def exampleRow_def noClaims_def claimsOfA_def claimOfA_def addedHistory_def
  qualifiedHistory_def addedEvent_def startedEvent_def
  submittedEvent_def qualifiedEvent_def exampleEvent_def workingPorts_def unwritableLog_def
  failingSubscriber_def exampleSettings_def todoWorld_def qualifiedWorld_def

lemmas run_defs =
  findById_def canClaim_def IGoalClaimStore_getClaim_def IGoalClaimStore_setClaim_def
  IGoalClaimStore_releaseClaim_def prepareClaim_def prepareRefreshedClaim_def storeClaim_def
  releaseClaim_def readStream_def Goal_rehydrate_def Goal_apply_def createEmptyGoalState_def
  noContext_def mergeContext_def orKeep_def transition_def guardStatus_def
  persistThenPublish_def eventWriter_append_def eventBus_publish_def Let_def

theorem claim_store_written_after_append_witness:
  "Goal_start (Goal_rehydrate ''goal_123'' (readStream ''goal_123'' todoWorld))
     (''worker-a-uuid'', 36000000, 37800000) (nowIso todoWorld) = Inr startedByA \<and>
   isl (appendEvent unwritableLog startedByA (eventLog todoWorld)) \<and>
   StartGoalCommandHandler_execute unwritableLog ''worker-a-uuid'' exampleSettings ''goal_123'' todoWorld
     = (Inl (StorageFailure ''EACCES''), todoWorld) \<and>
   fst (StartGoalCommandHandler_execute workingPorts ''worker-a-uuid'' exampleSettings ''goal_123''
          todoWorld) = Inr ''goal_123'' \<and>
   claims (snd (StartGoalCommandHandler_execute workingPorts ''worker-a-uuid'' exampleSettings
          ''goal_123'' todoWorld)) ''goal_123''
     = Some \<lparr>goalId = ''goal_123'', claimedBy = ''worker-a-uuid'', claimedAt = 36000000,
             claimExpiresAt = 37800000\<rparr> \<and>
   published (snd (StartGoalCommandHandler_execute workingPorts ''worker-a-uuid'' exampleSettings
          ''goal_123'' todoWorld)) = [startedByA] \<and>
   fst (CompleteGoalCommandHandler_execute failingSubscriber ''worker-a-uuid'' ''goal_123''
          (qualifiedWorld claimsOfA 36000000)) = Inl (StorageFailure ''SQLITE_BUSY'') \<and>
   claims (snd (CompleteGoalCommandHandler_execute failingSubscriber ''worker-a-uuid'' ''goal_123''
          (qualifiedWorld claimsOfA 36000000))) ''goal_123'' = None \<and>
   length (eventLog (snd (CompleteGoalCommandHandler_execute failingSubscriber ''worker-a-uuid''
          ''goal_123'' (qualifiedWorld claimsOfA 36000000))) ''goal_123'') = 5 \<and>
   published (snd (CompleteGoalCommandHandler_execute failingSubscriber ''worker-a-uuid'' ''goal_123''
          (qualifiedWorld claimsOfA 36000000))) = []"
proof -
  let ?claim = "\<lparr>goalId = ''goal_123'', claimedBy = ''worker-a-uuid'', claimedAt = 36000000,
                 claimExpiresAt = 37800000\<rparr>"
  let ?goal = "Goal_rehydrate ''goal_123'' (readStream ''goal_123'' todoWorld)"
  let ?tr = "Goal_start ?goal (claimedBy ?claim, claimedAt ?claim, claimExpiresAt ?claim)
               (nowIso todoWorld)"
  have d: "(1800000::int) = claimDurationMinutes exampleSettings * 60 * 1000"
    by (simp add: exampleSettings_def)
  have c: "?claim = fst (prepareClaim ''goal_123'' ''worker-a-uuid'' 1800000 todoWorld)"
    by (simp add: prepareClaim_def Let_def example_defs)
  have tr: "?tr = Inr startedByA"
    by (simp add: Goal_start_def startedByA_def run_defs example_defs)
  have fails: "isl (appendEvent unwritableLog startedByA (eventLog todoWorld))"
    by (simp add: unwritableLog_def)
  have works: "appendEvent workingPorts startedByA (eventLog todoWorld)
                 = Inr ((eventLog todoWorld)(''goal_123'' := addedHistory @ [startedByA]))"
    by (simp add: example_defs startedByA_def)
  note ordered = claim_store_written_after_append [OF d refl c refl]
  have "isl (fst (StartGoalCommandHandler_execute unwritableLog ''worker-a-uuid'' exampleSettings
                    ''goal_123'' todoWorld)) \<and>
        snd (StartGoalCommandHandler_execute unwritableLog ''worker-a-uuid'' exampleSettings
                    ''goal_123'' todoWorld) = todoWorld"
    using ordered [where H = "StartGoalCommandHandler_execute unwritableLog ''worker-a-uuid''
                                exampleSettings ''goal_123''"
                     and tr = ?tr and cl' = "(claims todoWorld)(''goal_123'' \<mapsto> ?claim)"
                     and io = unwritableLog and n = None]
          tr fails
    by simp
  moreover
  have "StartGoalCommandHandler_execute unwritableLog ''worker-a-uuid'' exampleSettings
          ''goal_123'' todoWorld = (Inl (StorageFailure ''EACCES''), todoWorld)"
    by (simp add: StartGoalCommandHandler_execute_def Goal_start_def run_defs example_defs)
  moreover
  have "fst (StartGoalCommandHandler_execute workingPorts ''worker-a-uuid'' exampleSettings
          ''goal_123'' todoWorld) = Inr ''goal_123''"
    by (simp add: StartGoalCommandHandler_execute_def Goal_start_def run_defs example_defs)
  then have "claims (snd (StartGoalCommandHandler_execute workingPorts ''worker-a-uuid''
                 exampleSettings ''goal_123'' todoWorld)) = (claims todoWorld)(''goal_123'' \<mapsto> ?claim) \<and>
             published (snd (StartGoalCommandHandler_execute workingPorts ''worker-a-uuid''
                 exampleSettings ''goal_123'' todoWorld)) = published todoWorld @ [startedByA] \<and>
             fst (StartGoalCommandHandler_execute workingPorts ''worker-a-uuid'' exampleSettings
                 ''goal_123'' todoWorld) = Inr ''goal_123''"
    using ordered [where H = "StartGoalCommandHandler_execute workingPorts ''worker-a-uuid''
                                exampleSettings ''goal_123''"
                     and tr = ?tr and cl' = "(claims todoWorld)(''goal_123'' \<mapsto> ?claim)"
                     and io = workingPorts and n = None]
          tr
    by simp
  moreover
  have "fst (CompleteGoalCommandHandler_execute failingSubscriber ''worker-a-uuid'' ''goal_123''
          (qualifiedWorld claimsOfA 36000000)) = Inl (StorageFailure ''SQLITE_BUSY'') \<and>
   claims (snd (CompleteGoalCommandHandler_execute failingSubscriber ''worker-a-uuid'' ''goal_123''
          (qualifiedWorld claimsOfA 36000000))) ''goal_123'' = None \<and>
   length (eventLog (snd (CompleteGoalCommandHandler_execute failingSubscriber ''worker-a-uuid''
          ''goal_123'' (qualifiedWorld claimsOfA 36000000))) ''goal_123'') = 5 \<and>
   published (snd (CompleteGoalCommandHandler_execute failingSubscriber ''worker-a-uuid'' ''goal_123''
          (qualifiedWorld claimsOfA 36000000))) = []"
    by (simp add: CompleteGoalCommandHandler_execute_def Goal_complete_def run_defs example_defs)
  ultimately show ?thesis
    using tr fails by (simp add: todoWorld_def exampleWorld_def)
qed

section \<open>Command handlers: the claim guard\<close>

lemma transition_error:
  "transition chk st now p = Inl e \<Longrightarrow> \<exists>m. e = IllegalTransition m"
  by (auto simp: transition_def split: if_splits)

lemma persistThenPublish_error:
  "fst (persistThenPublish io event step g w) = Inl e \<Longrightarrow> \<exists>m. e = StorageFailure m"
  by (auto simp: persistThenPublish_def eventWriter_append_def eventBus_publish_def Let_def
      split: sum.splits prod.splits)

lemma canClaim_cases:
  "canClaim g wid w = (Allowed, w) \<and>
     \<not> (\<exists>c. claims w g = Some c \<and> nowIso w < claimExpiresAt c \<and> claimedBy c \<noteq> wid) \<or>
   (\<exists>c. canClaim g wid w = (Rejected CLAIMED_BY_ANOTHER_WORKER c, w) \<and>
        claims w g = Some c \<and> nowIso w < claimExpiresAt c \<and> claimedBy c \<noteq> wid)"
  by (auto simp: canClaim_def IGoalClaimStore_getClaim_def Let_def split: option.splits)

lemma tail_not_claim_error_transition:
  "fst (case transition chk st now p of Inl err \<Rightarrow> (Inl err, w)
          | Inr event \<Rightarrow> persistThenPublish io event step g w)
     \<noteq> Inl (GOAL_CLAIMED_BY_ANOTHER_WORKER t)"
proof (cases "transition chk st now p")
  case (Inl err)
  then show ?thesis
    using transition_error [of chk st now p err] by auto
next
  case (Inr event)
  then show ?thesis
    using persistThenPublish_error [of io event step g w "GOAL_CLAIMED_BY_ANOTHER_WORKER t"]
    by auto
qed

lemma Complete_gate:
  assumes "fst (CompleteGoalCommandHandler_execute io wid g w)
             = Inl (GOAL_CLAIMED_BY_ANOTHER_WORKER t)"
  shows "\<exists>c. claims w g = Some c \<and> nowIso w < claimExpiresAt c \<and> claimedBy c \<noteq> wid \<and>
             t = claimExpiresAt c"
proof (cases "findById g (goal_views w)")
  case None
  with assms show ?thesis
    by (simp add: CompleteGoalCommandHandler_execute_def)
next
  case (Some view)
  from canClaim_cases [of g wid w] show ?thesis
  proof (elim disjE conjE exE)
    assume "canClaim g wid w = (Allowed, w)"
    with Some assms tail_not_claim_error_transition show ?thesis
      unfolding CompleteGoalCommandHandler_execute_def steps_fold
      by (simp add: Goal_complete_def Let_def)
  next
    fix c
    assume "canClaim g wid w = (Rejected CLAIMED_BY_ANOTHER_WORKER c, w)"
      and "claims w g = Some c" "nowIso w < claimExpiresAt c" "claimedBy c \<noteq> wid"
    with Some assms show ?thesis
      by (simp add: CompleteGoalCommandHandler_execute_def)
  qed
qed

lemma Reset_gate:
  assumes "fst (ResetGoalCommandHandler_execute io wid g w)
             = Inl (GOAL_CLAIMED_BY_ANOTHER_WORKER t)"
  shows "\<exists>c. claims w g = Some c \<and> nowIso w < claimExpiresAt c \<and> claimedBy c \<noteq> wid \<and>
             t = claimExpiresAt c"
proof (cases "findById g (goal_views w)")
  case None
  with assms show ?thesis
    by (simp add: ResetGoalCommandHandler_execute_def)
next
  case (Some view)
  from canClaim_cases [of g wid w] show ?thesis
  proof (elim disjE conjE exE)
    assume "canClaim g wid w = (Allowed, w)"
    with Some assms tail_not_claim_error_transition show ?thesis
      unfolding ResetGoalCommandHandler_execute_def steps_fold
      by (simp add: Goal_reset_def Let_def)
  next
    fix c
    assume "canClaim g wid w = (Rejected CLAIMED_BY_ANOTHER_WORKER c, w)"
      and "claims w g = Some c" "nowIso w < claimExpiresAt c" "claimedBy c \<noteq> wid"
    with Some assms show ?thesis
      by (simp add: ResetGoalCommandHandler_execute_def)
  qed
qed

lemma Pause_gate:
  assumes "fst (PauseGoalCommandHandler_execute io wid g reason n w)
             = Inl (GOAL_CLAIMED_BY_ANOTHER_WORKER t)"
  shows "\<exists>c. claims w g = Some c \<and> nowIso w < claimExpiresAt c \<and> claimedBy c \<noteq> wid \<and>
             t = claimExpiresAt c"
proof (cases "findById g (goal_views w)")
  case None
  with assms show ?thesis
    by (simp add: PauseGoalCommandHandler_execute_def)
next
  case (Some view)
  from canClaim_cases [of g wid w] show ?thesis
  proof (elim disjE conjE exE)
    assume "canClaim g wid w = (Allowed, w)"
    with Some assms tail_not_claim_error_transition show ?thesis
      unfolding PauseGoalCommandHandler_execute_def steps_fold_no_claim_step
      by (simp add: Goal_pause_def Let_def)
  next
    fix c
    assume "canClaim g wid w = (Rejected CLAIMED_BY_ANOTHER_WORKER c, w)"
      and "claims w g = Some c" "nowIso w < claimExpiresAt c" "claimedBy c \<noteq> wid"
    with Some assms show ?thesis
      by (simp add: PauseGoalCommandHandler_execute_def)
  qed
qed

lemma gate_rejects:
  assumes "claims w g = Some c" "nowIso w < claimExpiresAt c" "claimedBy c \<noteq> wid"
  shows "canClaim g wid w = (Rejected CLAIMED_BY_ANOTHER_WORKER c, w)"
  using assms by (simp add: canClaim_def IGoalClaimStore_getClaim_def Let_def)

text \<open>
  C2, as amended. The claim guard of pause, submitForReview, qualify, complete and reset
  is \<open>canClaim\<close>: when the store holds, for the goal, a claim that has not expired and
  belongs to another worker, the review, qualify and complete controllers, and the pause,
  complete and reset handlers once the goal is found in the read model, fail with
  \<open>GOAL_CLAIMED_BY_ANOTHER_WORKER\<close> carrying that claim's expiry, and leave the world as
  it was; and the pause, complete and reset handlers fail with that error only then.
\<close>

theorem competing_claim_gate:
  "(\<forall>c. claims w g = Some c \<and> nowIso w < claimExpiresAt c \<and> claimedBy c \<noteq> wid \<longrightarrow>
      ReviewGoalController_handle submitExecute getGoalContext wid g w
        = (Inl (GOAL_CLAIMED_BY_ANOTHER_WORKER (claimExpiresAt c)), w) \<and>
      QualifyGoalController_handle qualifyExecute wid g w
        = (Inl (GOAL_CLAIMED_BY_ANOTHER_WORKER (claimExpiresAt c)), w) \<and>
      CompleteGoalController_handle io wid g w
        = (Inl (GOAL_CLAIMED_BY_ANOTHER_WORKER (claimExpiresAt c)), w) \<and>
      (findById g (goal_views w) \<noteq> None \<longrightarrow>
         PauseGoalCommandHandler_execute io wid g reason n w
           = (Inl (GOAL_CLAIMED_BY_ANOTHER_WORKER (claimExpiresAt c)), w) \<and>
         CompleteGoalCommandHandler_execute io wid g w
           = (Inl (GOAL_CLAIMED_BY_ANOTHER_WORKER (claimExpiresAt c)), w) \<and>
         ResetGoalCommandHandler_execute io wid g w
           = (Inl (GOAL_CLAIMED_BY_ANOTHER_WORKER (claimExpiresAt c)), w))) \<and>
   (\<forall>t. fst (PauseGoalCommandHandler_execute io wid g reason n w)
           = Inl (GOAL_CLAIMED_BY_ANOTHER_WORKER t) \<or>
        fst (CompleteGoalCommandHandler_execute io wid g w)
           = Inl (GOAL_CLAIMED_BY_ANOTHER_WORKER t) \<or>
        fst (ResetGoalCommandHandler_execute io wid g w)
           = Inl (GOAL_CLAIMED_BY_ANOTHER_WORKER t) \<longrightarrow>
        (\<exists>c. claims w g = Some c \<and> nowIso w < claimExpiresAt c \<and> claimedBy c \<noteq> wid \<and>
             t = claimExpiresAt c))"
proof (intro conjI allI impI)
  fix c
  assume a: "claims w g = Some c \<and> nowIso w < claimExpiresAt c \<and> claimedBy c \<noteq> wid"
  then have rej: "canClaim g wid w = (Rejected CLAIMED_BY_ANOTHER_WORKER c, w)"
    by (simp add: gate_rejects)
  show "ReviewGoalController_handle submitExecute getGoalContext wid g w
          = (Inl (GOAL_CLAIMED_BY_ANOTHER_WORKER (claimExpiresAt c)), w)"
    by (simp add: ReviewGoalController_handle_def rej)
  show "QualifyGoalController_handle qualifyExecute wid g w
          = (Inl (GOAL_CLAIMED_BY_ANOTHER_WORKER (claimExpiresAt c)), w)"
    by (simp add: QualifyGoalController_handle_def rej)
  show "CompleteGoalController_handle io wid g w
          = (Inl (GOAL_CLAIMED_BY_ANOTHER_WORKER (claimExpiresAt c)), w)"
    by (simp add: CompleteGoalController_handle_def rej)
  assume found: "findById g (goal_views w) \<noteq> None"
  show "PauseGoalCommandHandler_execute io wid g reason n w
          = (Inl (GOAL_CLAIMED_BY_ANOTHER_WORKER (claimExpiresAt c)), w)"
    using found by (auto simp: PauseGoalCommandHandler_execute_def rej)
  show "CompleteGoalCommandHandler_execute io wid g w
          = (Inl (GOAL_CLAIMED_BY_ANOTHER_WORKER (claimExpiresAt c)), w)"
    using found by (auto simp: CompleteGoalCommandHandler_execute_def rej)
  show "ResetGoalCommandHandler_execute io wid g w
          = (Inl (GOAL_CLAIMED_BY_ANOTHER_WORKER (claimExpiresAt c)), w)"
    using found by (auto simp: ResetGoalCommandHandler_execute_def rej)
next
  fix t
  assume "fst (PauseGoalCommandHandler_execute io wid g reason n w)
           = Inl (GOAL_CLAIMED_BY_ANOTHER_WORKER t) \<or>
        fst (CompleteGoalCommandHandler_execute io wid g w)
           = Inl (GOAL_CLAIMED_BY_ANOTHER_WORKER t) \<or>
        fst (ResetGoalCommandHandler_execute io wid g w)
           = Inl (GOAL_CLAIMED_BY_ANOTHER_WORKER t)"
  then show "\<exists>c. claims w g = Some c \<and> nowIso w < claimExpiresAt c \<and> claimedBy c \<noteq> wid \<and>
             t = claimExpiresAt c"
    using Pause_gate [of io wid g reason n w t] Complete_gate [of io wid g w t]
      Reset_gate [of io wid g w t]
    by (elim disjE) simp_all
qed


text \<open>
  C2, as stated, fails: a worker who owns no claim completes a qualified goal, both when
  the store holds no claim for the goal and when it holds the expired claim of another
  worker.
\<close>

theorem complete_without_owning_claim:
  "claims (qualifiedWorld noClaims 36000000) ''goal_123'' = None \<and>
   fst (CompleteGoalCommandHandler_execute workingPorts ''worker-b-uuid'' ''goal_123''
          (qualifiedWorld noClaims 36000000)) = Inr ''goal_123'' \<and>
   claims (qualifiedWorld claimsOfA 37800000) ''goal_123'' = Some claimOfA \<and>
   claimedBy claimOfA = ''worker-a-uuid'' \<and>
   fst (CompleteGoalCommandHandler_execute workingPorts ''worker-b-uuid'' ''goal_123''
          (qualifiedWorld claimsOfA 37800000)) = Inr ''goal_123''"
  by (simp add: CompleteGoalCommandHandler_execute_def Goal_complete_def run_defs example_defs)



theorem competing_claim_gate_witness:
  "claims (qualifiedWorld claimsOfA 36000000) ''goal_123'' = Some claimOfA \<and>
   nowIso (qualifiedWorld claimsOfA 36000000) < claimExpiresAt claimOfA \<and>
   claimedBy claimOfA \<noteq> ''worker-b-uuid'' \<and>
   findById ''goal_123'' (goal_views (qualifiedWorld claimsOfA 36000000)) \<noteq> None \<and>
   CompleteGoalCommandHandler_execute workingPorts ''worker-b-uuid'' ''goal_123''
       (qualifiedWorld claimsOfA 36000000)
     = (Inl (GOAL_CLAIMED_BY_ANOTHER_WORKER (claimExpiresAt claimOfA)),
        qualifiedWorld claimsOfA 36000000) \<and>
   ResetGoalCommandHandler_execute workingPorts ''worker-b-uuid'' ''goal_123''
       (qualifiedWorld claimsOfA 36000000)
     = (Inl (GOAL_CLAIMED_BY_ANOTHER_WORKER (claimExpiresAt claimOfA)),
        qualifiedWorld claimsOfA 36000000) \<and>
   claimExpiresAt claimOfA = 37800000"
proof -
  let ?w = "qualifiedWorld claimsOfA 36000000"
  have h: "claims ?w ''goal_123'' = Some claimOfA \<and> nowIso ?w < claimExpiresAt claimOfA \<and>
           claimedBy claimOfA \<noteq> ''worker-b-uuid''"
    by (simp add: example_defs)
  have f: "findById ''goal_123'' (goal_views ?w) \<noteq> None"
    by (simp add: findById_def example_defs)
  have e: "claimExpiresAt claimOfA = 37800000"
    by (simp add: claimOfA_def)
  note gate = competing_claim_gate
            [of ?w "''goal_123''" "''worker-b-uuid''"
                "\<lambda>g w. (Inr g, w)" "\<lambda>g w. Inr ()" "\<lambda>g w. (Inr g, w)" workingPorts "''Other''" None]
  from gate have "claims ?w ''goal_123'' = Some claimOfA \<and> nowIso ?w < claimExpiresAt claimOfA \<and>
           claimedBy claimOfA \<noteq> ''worker-b-uuid'' \<longrightarrow>
      (findById ''goal_123'' (goal_views ?w) \<noteq> None \<longrightarrow>
         CompleteGoalCommandHandler_execute workingPorts ''worker-b-uuid'' ''goal_123'' ?w
           = (Inl (GOAL_CLAIMED_BY_ANOTHER_WORKER (claimExpiresAt claimOfA)), ?w) \<and>
         ResetGoalCommandHandler_execute workingPorts ''worker-b-uuid'' ''goal_123'' ?w
           = (Inl (GOAL_CLAIMED_BY_ANOTHER_WORKER (claimExpiresAt claimOfA)), ?w))"
    by blast
  with h f e show ?thesis
    by blast
qed

end
